theory Spec2Isabelle
  imports Main "HOL-Library.Sublist"
begin

section \<open>Miqro: the workflow dispatch core\<close>

text \<open>
  A shallow embedding of the dispatch core of Miqro (the module that exports
  \<open>startMiqroCore\<close> and \<open>startMiqro\<close>, together with its type declarations):
  the registry of workflows, the handler of \<open>POST /:workflowId\<close> and the callback
  bound to a cron timer.

  The HTTP transport (Hono), the cron timer (node-cron), the schema library and the
  file system are collaborators outside the module. What they hand to the module is
  data of the model: a request carries the route parameter, its headers, its query
  and the outcome of decoding its body; a schema is a function from a value to a
  success or a failure; the timer's check of a cron expression is a parameter.
  \<open>startMiqro\<close> runs \<open>loadWorkflows\<close> and hands the values of the map it built to
  \<open>startMiqroCore\<close>; the two are modelled one by one.
\<close>

subsection \<open>Values, faults and the declared types\<close>

text \<open>
  Values of the host language, as far as the module handles them: what a request body
  decodes to, what a workflow returns, and the objects handed to \<open>c.json\<close>.
  \<open>JUndefined\<close> is \<open>undefined\<close>. Numbers are integers here; no property
  below depends on fractions. \<open>JBigInt\<close> is a \<open>bigint\<close>, the value of this tree type
  that \<open>JSON.stringify\<close> refuses (a cyclic object, which it refuses too, is no tree).
\<close>

datatype jsvalue =
    JUndefined
  | JNull
  | JBool bool
  | JNumber int
  | JBigInt int
  | JString string
  | JArray "jsvalue list"
  | JObject "(string \<times> jsvalue) list"

text \<open>
  A thrown value or the reason of a rejected promise: a \<open>TypeError\<close> of the run time
  (reading a property of \<open>undefined\<close>), a failure of a collaborator (body decoding,
  the timer, the file system), or whatever a workflow body throws.
\<close>

datatype fault =
    TypeError string
  | CollaboratorError string
  | Thrown jsvalue

text \<open>\<open>AuthConfig\<close>: a union tagged by \<open>type\<close>.\<close>

datatype AuthConfig =
    AuthNone
  | ApiKey string
  | Bearer string

text \<open>
  The result of \<open>schema.safeParse\<close>: \<open>{ success: true, data }\<close> or
  \<open>{ success: false, error }\<close>; the failure carries what \<open>error.format()\<close> returns.
\<close>

datatype parse_result =
    ParseSuccess jsvalue
  | ParseFailure jsvalue

type_synonym schema = "jsvalue \<Rightarrow> parse_result"

text \<open>
  \<open>MiqroContext\<close>. The interface declares \<open>name\<close> a string; the module copies
  whatever the definition holds, and a definition arrives through a dynamic import that
  checks no type, so the field is optional here (\<open>None\<close> is \<open>undefined\<close>).
\<close>

record MiqroContext =
  ctx_workflowId :: string
  ctx_name :: "string option"
  ctx_params :: "string \<rightharpoonup> string"
  ctx_query :: "string \<rightharpoonup> string"
  ctx_headers :: "string \<rightharpoonup> string"

text \<open>
  \<open>WorkflowConfig\<close>. An absent \<open>id\<close> is the empty string (both are falsy, and the
  module only tests the id for truth before using it).
\<close>

record WorkflowConfig =
  cfg_id :: string
  cfg_name :: "string option"
  cfg_description :: "string option"
  cfg_auth :: AuthConfig
  cfg_schedule :: "string option"
  cfg_schema :: "schema option"

text \<open>
  What a call of \<open>execute\<close> does, as its caller sees it: it returns a plain value,
  throws, or returns a promise that is fulfilled or rejected (\<open>Promise<R> | R\<close>).
\<close>

datatype exec_result =
    Returns jsvalue
  | Throws fault
  | Resolves jsvalue
  | Rejects fault

record Workflow =
  config :: WorkflowConfig
  execute :: "jsvalue \<Rightarrow> MiqroContext \<Rightarrow> exec_result"

subsection \<open>Observable effects\<close>

text \<open>
  The effects of the module, in the order they happen: a line on the console, an
  error on the console, and a call of a workflow's \<open>execute\<close> with its arguments.
\<close>

datatype event =
    ConsoleLog string
  | ConsoleError string fault
  | Executed jsvalue MiqroContext

text \<open>The calls of \<open>execute\<close> among some events: the payloads and the contexts.\<close>

fun executed_calls :: "event list \<Rightarrow> (jsvalue \<times> MiqroContext) list" where
  "executed_calls [] = []"
| "executed_calls (Executed p c # es) = (p, c) # executed_calls es"
| "executed_calls (ConsoleLog s # es) = executed_calls es"
| "executed_calls (ConsoleError s e # es) = executed_calls es"

text \<open>The response built by \<open>c.json(object, status)\<close>; the status defaults to 200.\<close>

record Response =
  status :: nat
  body :: jsvalue

text \<open>
  Whether \<open>JSON.stringify\<close> serializes a value: it throws a \<open>TypeError\<close> on a
  \<open>bigint\<close> anywhere inside, and skips or nulls \<open>undefined\<close>.
\<close>

fun serializable :: "jsvalue \<Rightarrow> bool" where
  "serializable (JBigInt n) = False"
| "serializable (JArray xs) = list_all serializable xs"
| "serializable (JObject props) = list_all serializable (map snd props)"
| "serializable JUndefined = True"
| "serializable JNull = True"
| "serializable (JBool b) = True"
| "serializable (JNumber n) = True"
| "serializable (JString s) = True"

text \<open>
  \<open>c.json(object, status)\<close> serializes its argument on the spot, so it returns the
  response or throws what \<open>JSON.stringify\<close> throws.
\<close>

definition c_json :: "jsvalue \<Rightarrow> nat \<Rightarrow> fault + Response" where
  "c_json object code =
     (if serializable object then Inr \<lparr>status = code, body = object\<rparr>
      else Inl (TypeError ''Do not know how to serialize a BigInt''))"

text \<open>
  What the transport exposes of a request to the handler:
  \<open>c.req.param("workflowId")\<close>, \<open>c.req.header(name)\<close> (names in lower case, as the
  transport keys them), \<open>c.req.query(name)\<close>, and the outcome of
  \<open>await c.req.json()\<close>: the decoded body, or the fault the decoder rejects with.
\<close>

record Request =
  req_workflowId :: string
  req_headers :: "string \<rightharpoonup> string"
  req_query :: "string \<rightharpoonup> string"
  req_json :: "fault + jsvalue"

subsection \<open>Truthiness\<close>

text \<open>A string that may be \<open>undefined\<close> is truthy when it is present and not empty.\<close>

definition truthy :: "string option \<Rightarrow> bool" where
  "truthy v = (case v of None \<Rightarrow> False | Some s \<Rightarrow> s \<noteq> [])"

text \<open>\<open>a || b\<close>: \<open>a\<close> when it is truthy, \<open>b\<close> otherwise.\<close>

definition or_else :: "string option \<Rightarrow> string option \<Rightarrow> string option" where
  "or_else a b = (if truthy a then a else b)"

text \<open>\<open>s.startsWith(p)\<close>.\<close>

definition startsWith :: "string \<Rightarrow> string \<Rightarrow> bool" where
  "startsWith s p = prefix p s"

subsection \<open>The registry: a plain object used as a dictionary\<close>

text \<open>
  \<open>const workflows: Record<string, Workflow> = {}\<close> is an object literal, so it has
  own properties (the workflows stored by id) and a prototype, at first
  \<open>Object.prototype\<close>. Reading \<open>workflows[k]\<close> follows the prototype chain, and
  writing \<open>workflows["__proto__"] = w\<close> replaces the prototype by \<open>w\<close> instead of
  storing an own property. \<open>proto = None\<close> is the initial prototype.
\<close>

record Registry =
  own :: "string \<rightharpoonup> Workflow"
  proto :: "Workflow option"

definition empty_registry :: Registry where
  "empty_registry = \<lparr>own = Map.empty, proto = None\<rparr>"

text \<open>The property names every object inherits from \<open>Object.prototype\<close>.\<close>

definition object_prototype_names :: "string list" where
  "object_prototype_names =
     [''constructor'', ''hasOwnProperty'', ''isPrototypeOf'', ''propertyIsEnumerable'',
      ''toLocaleString'', ''toString'', ''valueOf'', ''__defineGetter__'',
      ''__defineSetter__'', ''__lookupGetter__'', ''__lookupSetter__'', ''__proto__'']"

text \<open>
  What \<open>workflows[k]\<close> evaluates to: \<open>undefined\<close>, a stored workflow, or an inherited
  value that is no workflow (a method of \<open>Object.prototype\<close>, the prototype itself, or
  a field of a workflow installed as the prototype): truthy, and without a
  \<open>config\<close> property.
\<close>

datatype lookup_result =
    Absent
  | Found Workflow
  | Inherited

definition lookup :: "Registry \<Rightarrow> string \<Rightarrow> lookup_result" where
  "lookup r k =
     (case own r k of
        Some w \<Rightarrow> Found w
      | None \<Rightarrow>
          (case proto r of
             Some p \<Rightarrow>
               if k = ''__proto__'' then Found p
               else if k \<in> set [''config'', ''execute''] \<or> k \<in> set object_prototype_names
               then Inherited else Absent
           | None \<Rightarrow>
               if k \<in> set object_prototype_names then Inherited else Absent))"

text \<open>\<open>workflows[k] = w\<close>.\<close>

definition assign :: "Registry \<Rightarrow> string \<Rightarrow> Workflow \<Rightarrow> Registry" where
  "assign r k w =
     (if k = ''__proto__'' then r\<lparr>proto := Some w\<rparr>
      else r\<lparr>own := (own r)(k \<mapsto> w)\<rparr>)"

text \<open>
  The place an assignment under \<open>k\<close> writes to: the prototype for \<open>__proto__\<close>, the
  own property \<open>k\<close> otherwise.
\<close>

definition slot :: "Registry \<Rightarrow> string \<Rightarrow> Workflow option" where
  "slot r k = (if k = ''__proto__'' then proto r else own r k)"

subsection \<open>The handler of \<open>POST /:workflowId\<close>\<close>

text \<open>
  The \<open>catch\<close> clause of the handler: the fault goes to the console and the response
  is a 400 with a fixed message. \<open>before\<close> are the events before the fault. Here, in
  the 404 and in the 401s the object handed to \<open>c.json\<close> holds strings only, so the
  call cannot throw and the response is written out.
\<close>

definition webhook_catch :: "event list \<Rightarrow> fault \<Rightarrow> Response \<times> event list" where
  "webhook_catch before e =
     (\<lparr>status = 400,
       body = JObject [(''error'', JString ''Invalid JSON payload or internal error'')]\<rparr>,
      before @ [ConsoleError ''[Miqro Webhook Error]'' e])"

text \<open>
  The auth check on the workflow's config: the 401 response of a denied request, or
  \<open>None\<close> when the handler goes on. \<open>authHeader\<close> is
  \<open>c.req.header("Authorization")\<close>.
\<close>

definition auth_check :: "AuthConfig \<Rightarrow> Request \<Rightarrow> Response option" where
  "auth_check auth c =
     (let authHeader = req_headers c ''authorization'' in
      case auth of
        ApiKey key \<Rightarrow>
          (let apiKey = or_else (req_headers c ''x-api-key'') (req_query c ''apiKey'') in
           if apiKey \<noteq> Some key
           then Some \<lparr>status = 401,
                       body = JObject [(''error'', JString ''Unauthorized: Invalid API Key'')]\<rparr>
           else None)
      | Bearer token \<Rightarrow>
          (if \<not> truthy authHeader \<or>
              \<not> (case authHeader of None \<Rightarrow> False
                  | Some a \<Rightarrow> startsWith a (''Bearer '' @ token))
           then Some \<lparr>status = 401,
                       body = JObject [(''error'', JString ''Unauthorized: Invalid Bearer token'')]\<rparr>
           else None)
      | AuthNone \<Rightarrow> None)"

text \<open>
  The context of an HTTP invocation: identity from the definition, the rest from the
  request. \<open>c.req.param()\<close> is the one parameter of the route pattern.
\<close>

definition http_context :: "Workflow \<Rightarrow> Request \<Rightarrow> MiqroContext" where
  "http_context workflow c =
     \<lparr>ctx_workflowId = cfg_id (config workflow),
      ctx_name = cfg_name (config workflow),
      ctx_params = [''workflowId'' \<mapsto> req_workflowId c],
      ctx_query = req_query c,
      ctx_headers = req_headers c\<rparr>"

text \<open>
  The awaited call of \<open>execute\<close> and the success envelope. A thrown fault and a
  rejected promise reach the \<open>catch\<close> clause, and so does the fault of \<open>c.json\<close> on
  a result it cannot serialize: the call is inside the \<open>try\<close> block.
\<close>

definition invoke :: "Workflow \<Rightarrow> Request \<Rightarrow> jsvalue \<Rightarrow> Response \<times> event list" where
  "invoke workflow c payload =
     (let workflowId = req_workflowId c;
          context = http_context workflow c;
          success = (\<lambda>result.
            case c_json (JObject [(''status'', JString ''success''),
                                  (''message'', JString (''Workflow '' @ [CHR 0x27] @ workflowId @
                                                         [CHR 0x27] @ '' executed'')),
                                  (''data'', result)]) 200 of
              Inr response \<Rightarrow> (response, [Executed payload context])
            | Inl e \<Rightarrow> webhook_catch [Executed payload context] e)
      in case execute workflow payload context of
           Returns result \<Rightarrow> success result
         | Resolves result \<Rightarrow> success result
         | Throws e \<Rightarrow> webhook_catch [Executed payload context] e
         | Rejects e \<Rightarrow> webhook_catch [Executed payload context] e)"

text \<open>
  Validation against the schema, when the config has one. The 400 of a rejected payload
  is built by \<open>c.json\<close> inside the \<open>try\<close> block, from what the validator reported.
\<close>

definition validate_and_invoke ::
  "Workflow \<Rightarrow> Request \<Rightarrow> jsvalue \<Rightarrow> Response \<times> event list" where
  "validate_and_invoke workflow c payload =
     (case cfg_schema (config workflow) of
        Some safeParse \<Rightarrow>
          (case safeParse payload of
             ParseFailure details \<Rightarrow>
               (case c_json (JObject [(''error'', JString ''Validation Failed''),
                                      (''details'', details)]) 400 of
                  Inr response \<Rightarrow> (response, [])
                | Inl e \<Rightarrow> webhook_catch [] e)
           | ParseSuccess data \<Rightarrow> invoke workflow c data)
      | None \<Rightarrow> invoke workflow c payload)"

text \<open>
  The handler. An inherited value passes the \<open>!workflow\<close> test; it has no
  \<open>config\<close>, so \<open>const { auth } = workflow.config\<close> throws a \<open>TypeError\<close> inside the
  \<open>try\<close> block.
\<close>

definition post_handler :: "Registry \<Rightarrow> Request \<Rightarrow> Response \<times> event list" where
  "post_handler workflows c =
     (let workflowId = req_workflowId c in
      case lookup workflows workflowId of
        Absent \<Rightarrow>
          (\<lparr>status = 404,
            body = JObject [(''error'', JString (''Workflow '' @ [CHR 0x27] @ workflowId @
                                                [CHR 0x27] @ '' not found''))]\<rparr>, [])
      | Inherited \<Rightarrow>
          webhook_catch [] (TypeError ''Cannot destructure property auth of undefined'')
      | Found workflow \<Rightarrow>
          (case auth_check (cfg_auth (config workflow)) c of
             Some denied \<Rightarrow> (denied, [])
           | None \<Rightarrow>
               (case req_json c of
                  Inl e \<Rightarrow> webhook_catch [] e
                | Inr payload \<Rightarrow> validate_and_invoke workflow c payload)))"

subsection \<open>The callback bound to a cron timer\<close>

text \<open>
  What one run of a timer callback leaves behind: the fault it threw to the timer that
  called it (if any), the rejected promise nobody handles (if any), and its events.
\<close>

record CallbackOutcome =
  thrown :: "fault option"
  unhandled_rejection :: "fault option"
  events :: "event list"

text \<open>
  The callback passed to \<open>cron.schedule\<close>, the same text in \<open>loadWorkflows\<close> and in
  \<open>startMiqroCore\<close>. \<open>now\<close> is \<open>Date.now()\<close>. The call of \<open>execute\<close> is the last
  statement, outside any \<open>try\<close>, and its result is neither awaited nor given a
  rejection handler.
\<close>

definition cron_payload :: "int \<Rightarrow> jsvalue" where
  "cron_payload now = JObject [(''source'', JString ''cron''), (''timestamp'', JNumber now)]"

definition cron_context :: "Workflow \<Rightarrow> MiqroContext" where
  "cron_context workflow =
     \<lparr>ctx_workflowId = cfg_id (config workflow),
      ctx_name = cfg_name (config workflow),
      ctx_params = Map.empty,
      ctx_query = Map.empty,
      ctx_headers = Map.empty\<rparr>"

definition cron_callback :: "Workflow \<Rightarrow> int \<Rightarrow> CallbackOutcome" where
  "cron_callback workflow now =
     (let line = ConsoleLog (''[Cron] Executing scheduled workflow: '' @ cfg_id (config workflow));
          payload = cron_payload now;
          context = cron_context workflow
      in case execute workflow payload context of
           Returns result \<Rightarrow>
             \<lparr>thrown = None, unhandled_rejection = None,
              events = [line, Executed payload context]\<rparr>
         | Resolves result \<Rightarrow>
             \<lparr>thrown = None, unhandled_rejection = None,
              events = [line, Executed payload context]\<rparr>
         | Throws e \<Rightarrow>
             \<lparr>thrown = Some e, unhandled_rejection = None,
              events = [line, Executed payload context]\<rparr>
         | Rejects e \<Rightarrow>
             \<lparr>thrown = None, unhandled_rejection = Some e,
              events = [line, Executed payload context]\<rparr>)"

subsection \<open>Loading: the registry and the timers\<close>

text \<open>
  A bound timer: the cron expression and the workflow its callback closes over. The
  timers live in the timer library, outside the registry, and the module keeps no
  handle to them.
\<close>

type_synonym timer = "string \<times> Workflow"

definition fire :: "timer \<Rightarrow> int \<Rightarrow> CallbackOutcome" where
  "fire t now = cron_callback (snd t) now"

record LoadState =
  workflows :: Registry
  timers :: "timer list"
  console :: "event list"

definition initial_state :: LoadState where
  "initial_state = \<lparr>workflows = empty_registry, timers = [], console = []\<rparr>"

text \<open>
  The body of both loading loops for one workflow whose id is truthy: store it under its
  id, log, and bind a timer when the schedule is truthy. \<open>valid\<close> is the timer library's
  check of a cron expression: \<open>cron.schedule\<close> throws on an expression it rejects, and
  the statements after it are skipped. \<open>loaded\<close> is the log line of the loop
  (the two loops word it differently). The result is the fault thrown, if any, and the
  state reached.
\<close>

definition register_workflow ::
  "(string \<Rightarrow> bool) \<Rightarrow> string \<Rightarrow> Workflow \<Rightarrow> LoadState \<Rightarrow> fault option \<times> LoadState" where
  "register_workflow valid loaded workflow s =
     (let s1 = s\<lparr>workflows := assign (workflows s) (cfg_id (config workflow)) workflow,
                  console := console s @ [ConsoleLog loaded]\<rparr>
      in case cfg_schedule (config workflow) of
           None \<Rightarrow> (None, s1)
         | Some schedule \<Rightarrow>
             if schedule = [] then (None, s1)
             else if valid schedule
             then (None, s1\<lparr>timers := timers s1 @ [(schedule, workflow)],
                             console := console s1 @
                               [ConsoleLog (''[Miqro] Scheduled workflow '' @ [CHR 0x27] @
                                  cfg_id (config workflow) @ [CHR 0x27] @ '' with cron: '' @
                                  [CHR 0x27] @ schedule @ [CHR 0x27])]\<rparr>)
             else (Some (CollaboratorError schedule), s1))"

text \<open>The timers that loading one definition binds when the timer library accepts its
  schedule: one for a truthy id with a truthy schedule, none otherwise.\<close>

definition timers_of :: "Workflow \<Rightarrow> timer list" where
  "timers_of w =
     (if cfg_id (config w) = [] then []
      else case cfg_schedule (config w) of
             None \<Rightarrow> []
           | Some e \<Rightarrow> if e = [] then [] else [(e, w)])"

text \<open>The loop of \<open>startMiqroCore\<close> over \<open>staticWorkflows\<close>; a fault ends it.\<close>

fun register_static ::
  "(string \<Rightarrow> bool) \<Rightarrow> Workflow list \<Rightarrow> LoadState \<Rightarrow> fault option \<times> LoadState" where
  "register_static valid [] s = (None, s)"
| "register_static valid (workflow # rest) s =
     (if cfg_id (config workflow) \<noteq> []
      then (case register_workflow valid
                   (''[Miqro] Loaded workflow: '' @ cfg_id (config workflow)) workflow s of
              (Some e, s') \<Rightarrow> (Some e, s')
            | (None, s') \<Rightarrow> register_static valid rest s')
      else register_static valid rest s)"

text \<open>
  \<open>startMiqroCore\<close>, as far as the registry and the timers go: the loop runs on an
  empty registry; when it throws, the promise of \<open>startMiqroCore\<close> is rejected and no
  application is returned. The user's middleware and the \<open>/health\<close> route are not
  part of the model.
\<close>

definition startMiqroCore :: "(string \<Rightarrow> bool) \<Rightarrow> Workflow list \<Rightarrow> fault option \<times> LoadState" where
  "startMiqroCore valid staticWorkflows = register_static valid staticWorkflows initial_state"

text \<open>The \<open>fetch\<close> of the returned application, on a \<open>POST /:workflowId\<close>.\<close>

definition fetch :: "LoadState \<Rightarrow> Request \<Rightarrow> Response \<times> event list" where
  "fetch s c = post_handler (workflows s) c"

text \<open>
  \<open>loadWorkflows\<close>. The directory listing and the dynamic imports come from the file
  system: \<open>readdir\<close> gives the file names or fails, and importing a file gives its
  default export or fails. \<open>DefaultExport None\<close> is a module whose default export is
  missing or has no \<open>config\<close>.
\<close>

datatype imported =
    ImportFails fault
  | DefaultExport "Workflow option"

definition endsWith :: "string \<Rightarrow> string \<Rightarrow> bool" where
  "endsWith s p = suffix p s"

text \<open>The loop over the files; only a file named \<open>*.ts\<close> or \<open>*.js\<close> is imported.\<close>

fun load_files ::
  "(string \<Rightarrow> bool) \<Rightarrow> (string \<times> imported) list \<Rightarrow> LoadState \<Rightarrow> fault option \<times> LoadState" where
  "load_files valid [] s = (None, s)"
| "load_files valid ((file, m) # rest) s =
     (if endsWith file ''.ts'' \<or> endsWith file ''.js''
      then (case m of
              ImportFails e \<Rightarrow> (Some e, s)
            | DefaultExport None \<Rightarrow> load_files valid rest s
            | DefaultExport (Some workflow) \<Rightarrow>
                if cfg_id (config workflow) \<noteq> []
                then (case register_workflow valid
                             (''[Miqro] Loaded workflow: '' @ cfg_id (config workflow) @
                              '' ('' @ file @ '')'') workflow s of
                        (Some e, s') \<Rightarrow> (Some e, s')
                      | (None, s') \<Rightarrow> load_files valid rest s')
                else load_files valid rest s)
      else load_files valid rest s)"

text \<open>The definitions a completed run of the loop has reached: the default exports of
  the files it imports.\<close>

fun loaded_definitions :: "(string \<times> imported) list \<Rightarrow> Workflow list" where
  "loaded_definitions [] = []"
| "loaded_definitions ((file, m) # rest) =
     (if endsWith file ''.ts'' \<or> endsWith file ''.js''
      then (case m of
              ImportFails e \<Rightarrow> loaded_definitions rest
            | DefaultExport None \<Rightarrow> loaded_definitions rest
            | DefaultExport (Some workflow) \<Rightarrow> workflow # loaded_definitions rest)
      else loaded_definitions rest)"

text \<open>
  The \<open>try\<close> around the listing and the loop: a fault ends the loading, goes to the
  console, and the registry built so far is returned.
\<close>

definition loadWorkflows ::
  "(string \<Rightarrow> bool) \<Rightarrow> string \<Rightarrow> fault + (string \<times> imported) list \<Rightarrow> LoadState" where
  "loadWorkflows valid workflowsDir listing =
     (let report = (\<lambda>e. ConsoleError (''[Miqro] Error loading workflows from '' @
                                       workflowsDir @ '':'') e)
      in case listing of
           Inl e \<Rightarrow> initial_state\<lparr>console := [report e]\<rparr>
         | Inr files \<Rightarrow>
             (case load_files valid files initial_state of
                (Some e, s) \<Rightarrow> s\<lparr>console := console s @ [report e]\<rparr>
              | (None, s) \<Rightarrow> s))"

subsection \<open>Sample definitions\<close>

text \<open>
  Workflows and requests in the manner of the repository's test suite, used to run the
  model on concrete inputs.
\<close>

definition sample_config :: "string \<Rightarrow> AuthConfig \<Rightarrow> WorkflowConfig" where
  "sample_config i a =
     \<lparr>cfg_id = i, cfg_name = Some ''Sample'', cfg_description = None, cfg_auth = a,
      cfg_schedule = None, cfg_schema = None\<rparr>"

definition echo :: "jsvalue \<Rightarrow> MiqroContext \<Rightarrow> exec_result" where
  "echo payload context = Returns payload"

definition failing :: "jsvalue \<Rightarrow> MiqroContext \<Rightarrow> exec_result" where
  "failing payload context = Throws (Thrown (JString ''boom''))"

definition rejecting :: "jsvalue \<Rightarrow> MiqroContext \<Rightarrow> exec_result" where
  "rejecting payload context = Rejects (Thrown (JString ''boom''))"

definition wf_no_auth :: Workflow where
  "wf_no_auth = \<lparr>config = sample_config ''webhook-no-auth'' AuthNone, execute = echo\<rparr>"

definition wf_api_key :: Workflow where
  "wf_api_key =
     \<lparr>config = sample_config ''webhook-api-key'' (ApiKey ''secret123''), execute = echo\<rparr>"

definition wf_bearer :: Workflow where
  "wf_bearer =
     \<lparr>config = sample_config ''webhook-bearer'' (Bearer ''token456''), execute = echo\<rparr>"

text \<open>A schema that accepts an object with a string field \<open>email\<close> and normalizes it
  to that field alone.\<close>

definition email_schema :: schema where
  "email_schema v =
     (case v of
        JObject props \<Rightarrow>
          (case map_of props ''email'' of
             Some (JString e) \<Rightarrow> ParseSuccess (JObject [(''email'', JString e)])
           | _ \<Rightarrow> ParseFailure (JObject [(''email'', JString ''Required'')]))
      | _ \<Rightarrow> ParseFailure (JObject [(''_errors'', JString ''Expected object'')]))"

definition wf_zod :: Workflow where
  "wf_zod =
     \<lparr>config = (sample_config ''webhook-zod'' AuthNone)\<lparr>cfg_schema := Some email_schema\<rparr>,
      execute = echo\<rparr>"

definition wf_zod_failing :: Workflow where
  "wf_zod_failing =
     \<lparr>config = (sample_config ''webhook-zod-failing'' AuthNone)
                 \<lparr>cfg_schema := Some email_schema\<rparr>,
      execute = failing\<rparr>"

text \<open>A workflow whose body returns a \<open>bigint\<close>.\<close>

definition counting :: "jsvalue \<Rightarrow> MiqroContext \<Rightarrow> exec_result" where
  "counting payload context = Returns (JBigInt 1)"

definition wf_zod_counting :: Workflow where
  "wf_zod_counting =
     \<lparr>config = (sample_config ''webhook-zod-counting'' AuthNone)
                 \<lparr>cfg_schema := Some email_schema\<rparr>,
      execute = counting\<rparr>"

text \<open>Validators in the shape the interface asks for (\<open>format: () => unknown\<close>): one
  whose report is the empty object, one whose report holds a \<open>bigint\<close>.\<close>

definition silent_schema :: schema where
  "silent_schema v = ParseFailure (JObject [])"

definition bigint_schema :: schema where
  "bigint_schema v = ParseFailure (JObject [(''received'', JBigInt 1)])"

definition wf_silent :: Workflow where
  "wf_silent =
     \<lparr>config = (sample_config ''webhook-silent'' AuthNone)\<lparr>cfg_schema := Some silent_schema\<rparr>,
      execute = echo\<rparr>"

definition wf_bigint_report :: Workflow where
  "wf_bigint_report =
     \<lparr>config = (sample_config ''webhook-bigint-report'' AuthNone)
                 \<lparr>cfg_schema := Some bigint_schema\<rparr>,
      execute = echo\<rparr>"

text \<open>A definition without a name, with a schedule.\<close>

definition wf_unnamed :: Workflow where
  "wf_unnamed =
     \<lparr>config = (sample_config ''unnamed'' AuthNone)
                 \<lparr>cfg_name := None, cfg_schedule := Some ''*/5 * * * *''\<rparr>,
      execute = echo\<rparr>"

definition wf_cron :: "(jsvalue \<Rightarrow> MiqroContext \<Rightarrow> exec_result) \<Rightarrow> Workflow" where
  "wf_cron f =
     \<lparr>config = (sample_config ''hourly-sync-task'' AuthNone)
                 \<lparr>cfg_schedule := Some ''* * * * *''\<rparr>,
      execute = f\<rparr>"

text \<open>Two definitions under one id, each with a schedule.\<close>

definition dup_first :: Workflow where
  "dup_first = wf_cron echo"

definition dup_second :: Workflow where
  "dup_second = (wf_cron failing)\<lparr>config := (config (wf_cron failing))\<lparr>cfg_schedule := Some ''0 0 * * *''\<rparr>\<rparr>"

text \<open>A third definition under that id, with a schedule that is no cron expression, and
  a timer library that rejects it.\<close>

definition dup_misspelt :: Workflow where
  "dup_misspelt = (wf_cron echo)\<lparr>config := (config (wf_cron echo))\<lparr>cfg_schedule := Some ''every minute''\<rparr>\<rparr>"

definition strict_cron :: "string \<Rightarrow> bool" where
  "strict_cron e = (e \<noteq> ''every minute'')"


definition sample_registry :: Registry where
  "sample_registry =
     \<lparr>own = [''webhook-no-auth'' \<mapsto> wf_no_auth, ''webhook-api-key'' \<mapsto> wf_api_key,
             ''webhook-bearer'' \<mapsto> wf_bearer, ''webhook-zod'' \<mapsto> wf_zod,
             ''webhook-zod-failing'' \<mapsto> wf_zod_failing,
             ''webhook-zod-counting'' \<mapsto> wf_zod_counting,
             ''webhook-silent'' \<mapsto> wf_silent,
             ''webhook-bigint-report'' \<mapsto> wf_bigint_report,
             ''unnamed'' \<mapsto> wf_unnamed],
      proto = None\<rparr>"

definition sample_request ::
  "string \<Rightarrow> (string \<times> string) list \<Rightarrow> (string \<times> string) list \<Rightarrow> fault + jsvalue \<Rightarrow> Request" where
  "sample_request i hs qs b =
     \<lparr>req_workflowId = i, req_headers = map_of hs, req_query = map_of qs, req_json = b\<rparr>"

definition bad_json :: "fault + jsvalue" where
  "bad_json = Inl (CollaboratorError ''Unexpected token b in JSON'')"

definition good_json :: "fault + jsvalue" where
  "good_json = Inr (JObject [(''email'', JString ''a@b.c''), (''age'', JNumber 25)])"

section \<open>Properties\<close>

subsection \<open>Unfolding the samples and the handler\<close>

lemmas sample_defs = sample_registry_def sample_request_def sample_config_def
  wf_no_auth_def wf_api_key_def wf_bearer_def wf_zod_def wf_zod_failing_def wf_unnamed_def
  wf_zod_counting_def wf_silent_def wf_bigint_report_def counting_def silent_schema_def
  bigint_schema_def
  wf_cron_def echo_def failing_def rejecting_def email_schema_def bad_json_def good_json_def

lemmas handler_defs = post_handler_def lookup_def auth_check_def truthy_def or_else_def
  startsWith_def validate_and_invoke_def invoke_def http_context_def webhook_catch_def Let_def
  object_prototype_names_def c_json_def

subsection \<open>Status codes of the handler\<close>

lemma status_invoke: "status (fst (invoke w c p)) = 200 \<or> status (fst (invoke w c p)) = 400"
  by (simp add: invoke_def Let_def webhook_catch_def c_json_def split: exec_result.split)

lemma status_validate_and_invoke:
  "status (fst (validate_and_invoke w c p)) = 200 \<or>
   status (fst (validate_and_invoke w c p)) = 400"
  using status_invoke
  by (simp add: validate_and_invoke_def c_json_def webhook_catch_def
      split: option.split parse_result.split)

lemma status_auth_check: "auth_check a c = Some r \<Longrightarrow> status r = 401"
  by (auto simp: auth_check_def Let_def split: AuthConfig.splits if_splits)

text \<open>Once the id resolves to a stored workflow, the handler is the rest of the pipeline.\<close>

lemma post_handler_Found:
  "lookup r (req_workflowId c) = Found w \<Longrightarrow>
   post_handler r c =
     (case auth_check (cfg_auth (config w)) c of
        Some denied \<Rightarrow> (denied, [])
      | None \<Rightarrow> (case req_json c of Inl e \<Rightarrow> webhook_catch [] e
                 | Inr payload \<Rightarrow> validate_and_invoke w c payload))"
  by (simp add: post_handler_def)

text \<open>A 401 comes from the auth check and from nowhere else.\<close>

lemma status_401_iff:
  assumes "lookup r (req_workflowId c) = Found w"
  shows "status (fst (post_handler r c)) = 401 \<longleftrightarrow>
         auth_check (cfg_auth (config w)) c \<noteq> None"
proof (cases "auth_check (cfg_auth (config w)) c")
  case None
  have "status (fst (post_handler r c)) \<noteq> 401"
  proof (cases "req_json c")
    case (Inl e)
    with None assms show ?thesis by (simp add: post_handler_Found webhook_catch_def)
  next
    case (Inr p)
    with None assms status_validate_and_invoke [of w c p] show ?thesis
      by (auto simp: post_handler_Found)
  qed
  with None show ?thesis by simp
next
  case (Some d)
  with assms show ?thesis by (simp add: post_handler_Found status_auth_check)
qed

subsection \<open>The sample server\<close>


subsection \<open>Unknown workflow ids\<close>

text \<open>
  An id that is neither stored nor the name of an inherited property gets the 404, with
  a body of one field \<open>error\<close>, and nothing else happens: no auth check, no decoding, no
  call of \<open>execute\<close>.
\<close>

lemma unknown_id_not_inherited:
  assumes "own r k = None" and "k \<notin> set object_prototype_names"
    and "k \<notin> set [''config'', ''execute'']" and "req_workflowId c = k"
  shows "post_handler r c =
     (\<lparr>status = 404,
       body = JObject [(''error'', JString (''Workflow '' @ [CHR 0x27] @ k @ [CHR 0x27] @
                                           '' not found''))]\<rparr>, [])"
  using assms
  by (auto simp: post_handler_def lookup_def Let_def object_prototype_names_def
      split: option.splits)

text \<open>
  Claim C7: for every workflow id not present in the registry, \<open>POST /{workflowId}\<close>
  yields a 404 with a body \<open>{ error: string }\<close>, before any auth check, decoding,
  validation or call of \<open>execute\<close>. The handler does not do so for every such id:
  on a server started with the one workflow \<open>webhook-no-auth\<close>, \<open>POST /constructor\<close>
  finds the inherited \<open>constructor\<close> property of the registry object, passes the
  \<open>!workflow\<close> test, fails on \<open>workflow.config\<close> and answers 400 from the \<open>catch\<close>
  clause.
\<close>

theorem unknown_id_constructor:
  "own (workflows (snd (startMiqroCore (\<lambda>e. True) [wf_no_auth]))) ''constructor'' = None \<and>
   fetch (snd (startMiqroCore (\<lambda>e. True) [wf_no_auth]))
     (sample_request ''constructor'' [] [] good_json) =
     (\<lparr>status = 400,
       body = JObject [(''error'', JString ''Invalid JSON payload or internal error'')]\<rparr>,
      [ConsoleError ''[Miqro Webhook Error]''
         (TypeError ''Cannot destructure property auth of undefined'')])"
  by (simp add: fetch_def startMiqroCore_def register_workflow_def initial_state_def
      assign_def empty_registry_def handler_defs sample_defs)

subsection \<open>Authentication\<close>

text \<open>
  Claim C2, as the handler has it: for a workflow with auth \<open>bearer(T)\<close>, the
  invocation is denied with 401 exactly when the \<open>Authorization\<close> header is absent or
  does not start with \<open>Bearer T\<close>. A header equal to \<open>Bearer T\<close> is allowed, and so is
  any header that continues it.
\<close>

theorem bearer_prefix:
  assumes "lookup r (req_workflowId c) = Found w"
    and "cfg_auth (config w) = Bearer T"
  shows "status (fst (post_handler r c)) = 401 \<longleftrightarrow>
         (case req_headers c ''authorization'' of
            None \<Rightarrow> True
          | Some a \<Rightarrow> \<not> prefix (''Bearer '' @ T) a)"
proof -
  have "auth_check (Bearer T) c \<noteq> None \<longleftrightarrow>
        (case req_headers c ''authorization'' of None \<Rightarrow> True
         | Some a \<Rightarrow> \<not> prefix (''Bearer '' @ T) a)"
    by (auto simp: auth_check_def Let_def truthy_def startsWith_def split: option.splits)
  with assms show ?thesis by (simp add: status_401_iff)
qed

theorem bearer_prefix_witness:
  "status (fst (post_handler sample_registry
      (sample_request ''webhook-bearer'' [(''authorization'', ''Bearer token456'')] []
         good_json))) \<noteq> 401 \<and>
   status (fst (post_handler sample_registry
      (sample_request ''webhook-bearer'' [(''authorization'', ''Bearer wrong-token'')] []
         good_json))) = 401 \<and>
   status (fst (post_handler sample_registry
      (sample_request ''webhook-bearer'' [] [] good_json))) = 401"
proof -
  have f: "\<And>hs. lookup sample_registry
      (req_workflowId (sample_request ''webhook-bearer'' hs [] good_json)) = Found wf_bearer"
    by (simp add: lookup_def sample_defs)
  have a: "cfg_auth (config wf_bearer) = Bearer ''token456''"
    by (simp add: sample_defs)
  show ?thesis
    using bearer_prefix [OF f a, of "[(''authorization'', ''Bearer token456'')]"]
      bearer_prefix [OF f a, of "[(''authorization'', ''Bearer wrong-token'')]"]
      bearer_prefix [OF f a, of "[]"]
    by (simp add: sample_request_def)
qed

text \<open>
  The claim as stated fails: the token is \<open>token456\<close>, the header carries
  \<open>Bearer token456789\<close>, which is another value, and the invocation runs to a 200.
\<close>

theorem bearer_longer_token_allowed:
  "''Bearer token456789'' \<noteq> ''Bearer token456'' \<and>
   status (fst (post_handler sample_registry
      (sample_request ''webhook-bearer'' [(''authorization'', ''Bearer token456789'')] []
         good_json))) = 200"
  by (simp add: handler_defs sample_defs)

text \<open>
  Claim C5: for a workflow with auth \<open>apiKey(key)\<close>, the invocation is allowed exactly
  when the candidate equals \<open>key\<close>, and denied with 401 otherwise. The candidate is
  \<open>header || query\<close>: the \<open>x-api-key\<close> header when it is present and not empty, the
  \<open>apiKey\<close> query parameter otherwise.
\<close>

theorem api_key_candidate:
  assumes "lookup r (req_workflowId c) = Found w"
    and "cfg_auth (config w) = ApiKey key"
  shows "status (fst (post_handler r c)) = 401 \<longleftrightarrow>
         (case req_headers c ''x-api-key'' of
            None \<Rightarrow> req_query c ''apiKey''
          | Some h \<Rightarrow> if h = [] then req_query c ''apiKey'' else Some h) \<noteq> Some key"
proof -
  have "auth_check (ApiKey key) c \<noteq> None \<longleftrightarrow>
         (case req_headers c ''x-api-key'' of
            None \<Rightarrow> req_query c ''apiKey''
          | Some h \<Rightarrow> if h = [] then req_query c ''apiKey'' else Some h) \<noteq> Some key"
    by (auto simp: auth_check_def Let_def truthy_def or_else_def split: option.splits)
  with assms show ?thesis by (simp add: status_401_iff)
qed

theorem api_key_candidate_witness:
  "status (fst (post_handler sample_registry
      (sample_request ''webhook-api-key'' [(''x-api-key'', ''secret123'')] []
         good_json))) \<noteq> 401 \<and>
   status (fst (post_handler sample_registry
      (sample_request ''webhook-api-key'' [] [(''apiKey'', ''secret123'')]
         good_json))) \<noteq> 401 \<and>
   status (fst (post_handler sample_registry
      (sample_request ''webhook-api-key'' [(''x-api-key'', ''wrong-key'')]
         [(''apiKey'', ''secret123'')] good_json))) = 401 \<and>
   status (fst (post_handler sample_registry
      (sample_request ''webhook-api-key'' [] [] good_json))) = 401"
proof -
  have f: "\<And>hs qs. lookup sample_registry
      (req_workflowId (sample_request ''webhook-api-key'' hs qs good_json)) = Found wf_api_key"
    by (simp add: lookup_def sample_defs)
  have a: "cfg_auth (config wf_api_key) = ApiKey ''secret123''"
    by (simp add: sample_defs)
  show ?thesis
    using api_key_candidate [OF f a, of "[(''x-api-key'', ''secret123'')]" "[]"]
      api_key_candidate [OF f a, of "[]" "[(''apiKey'', ''secret123'')]"]
      api_key_candidate [OF f a, of "[(''x-api-key'', ''wrong-key'')]"
        "[(''apiKey'', ''secret123'')]"]
      api_key_candidate [OF f a, of "[]" "[]"]
    by (simp add: sample_request_def)
qed

text \<open>
  Claim C10: for a workflow with auth \<open>apiKey(key)\<close>, an \<open>x-api-key\<close> header whose
  value is the empty string is treated as an absent header: the auth check decides as
  it does on the request without that header, so the candidate is the \<open>apiKey\<close> query
  parameter and the request is allowed when that parameter equals \<open>key\<close>.
\<close>

theorem empty_api_key_header:
  assumes "lookup r (req_workflowId c) = Found w"
    and "cfg_auth (config w) = ApiKey key"
    and "req_headers c ''x-api-key'' = Some []"
  shows "auth_check (cfg_auth (config w)) c =
           auth_check (cfg_auth (config w))
             (c\<lparr>req_headers := (req_headers c)(''x-api-key'' := None)\<rparr>) \<and>
         (status (fst (post_handler r c)) = 401 \<longleftrightarrow> req_query c ''apiKey'' \<noteq> Some key)"
proof -
  have "auth_check (ApiKey key) c =
        auth_check (ApiKey key) (c\<lparr>req_headers := (req_headers c)(''x-api-key'' := None)\<rparr>)"
    using assms(3) by (simp add: auth_check_def Let_def or_else_def truthy_def)
  moreover have "auth_check (ApiKey key) c \<noteq> None \<longleftrightarrow> req_query c ''apiKey'' \<noteq> Some key"
    using assms(3) by (simp add: auth_check_def Let_def or_else_def truthy_def)
  ultimately show ?thesis using assms(1,2) by (simp add: status_401_iff)
qed

theorem empty_api_key_header_witness:
  "status (fst (post_handler sample_registry
      (sample_request ''webhook-api-key'' [(''x-api-key'', [])] [(''apiKey'', ''secret123'')]
         good_json))) \<noteq> 401"
proof -
  let ?c = "sample_request ''webhook-api-key'' [(''x-api-key'', [])]
              [(''apiKey'', ''secret123'')] good_json"
  have f: "lookup sample_registry (req_workflowId ?c) = Found wf_api_key"
    by (simp add: lookup_def sample_defs)
  have a: "cfg_auth (config wf_api_key) = ApiKey ''secret123''"
    by (simp add: sample_defs)
  have h: "req_headers ?c ''x-api-key'' = Some []"
    by (simp add: sample_request_def)
  show ?thesis
    using empty_api_key_header [OF f a h] by (simp add: sample_request_def)
qed

subsection \<open>Malformed bodies\<close>

text \<open>
  Claim C4, as the handler has it: for every registered workflow, whatever its schema,
  a POST whose body fails to decode never reaches \<open>execute\<close>; it yields 400 when the
  request passes the workflow's auth check, and 401 when the check denies it, because
  the check runs before the body is decoded.
\<close>

theorem malformed_body:
  assumes "lookup r (req_workflowId c) = Found w"
    and "req_json c = Inl e"
  shows "executed_calls (snd (post_handler r c)) = [] \<and>
         status (fst (post_handler r c)) =
           (case auth_check (cfg_auth (config w)) c of None \<Rightarrow> 400 | Some denied \<Rightarrow> 401)"
  using assms
  by (auto simp: post_handler_Found webhook_catch_def status_auth_check split: option.splits)

theorem malformed_body_witness:
  "status (fst (post_handler sample_registry
      (sample_request ''webhook-zod'' [] [] bad_json))) = 400 \<and>
   executed_calls (snd (post_handler sample_registry
      (sample_request ''webhook-zod'' [] [] bad_json))) = [] \<and>
   status (fst (post_handler sample_registry
      (sample_request ''webhook-api-key'' [(''x-api-key'', ''secret123'')] []
         bad_json))) = 400"
proof -
  have f1: "lookup sample_registry
      (req_workflowId (sample_request ''webhook-zod'' [] [] bad_json)) = Found wf_zod"
    by (simp add: lookup_def sample_defs)
  have f2: "\<And>hs. lookup sample_registry
      (req_workflowId (sample_request ''webhook-api-key'' hs [] bad_json)) = Found wf_api_key"
    by (simp add: lookup_def sample_defs)
  have b: "\<And>i hs. req_json (sample_request i hs [] bad_json) =
      Inl (CollaboratorError ''Unexpected token b in JSON'')"
    by (simp add: sample_request_def bad_json_def)
  show ?thesis
    using malformed_body [OF f1 b]
      malformed_body [OF f2 b, of "[(''x-api-key'', ''secret123'')]"]
    by (simp add: sample_defs auth_check_def or_else_def truthy_def)
qed

text \<open>
  The claim as stated fails: the workflow wants an API key, the request brings none
  and a body that does not decode, and the response is the 401 of the auth check.
\<close>

theorem malformed_body_unauthorized:
  "req_json (sample_request ''webhook-api-key'' [] [] bad_json) =
     Inl (CollaboratorError ''Unexpected token b in JSON'') \<and>
   status (fst (post_handler sample_registry
      (sample_request ''webhook-api-key'' [] [] bad_json))) = 401"
  by (simp add: handler_defs sample_defs)

subsection \<open>Validation and invocation\<close>

lemma invoke_calls: "executed_calls (snd (invoke w c p)) = [(p, http_context w c)]"
  by (simp add: invoke_def Let_def webhook_catch_def c_json_def split: exec_result.split)





subsection \<open>The name in the execution context\<close>

text \<open>
  Claim C8, as the module has it: the \<open>name\<close> of the execution context passed to
  \<open>execute\<close> is the definition's \<open>name\<close>, copied as it is, on the HTTP path and on
  the scheduled path; no default is applied.
\<close>

theorem context_name_copied:
  assumes "lookup r (req_workflowId c) = Found w"
  shows "list_all (\<lambda>call. ctx_name (snd call) = cfg_name (config w))
           (executed_calls (snd (post_handler r c))) \<and>
         (status (fst (post_handler r c)) = 200 \<longrightarrow>
            map (\<lambda>call. ctx_name (snd call)) (executed_calls (snd (post_handler r c))) =
              [cfg_name (config w)]) \<and>
         map (\<lambda>call. ctx_name (snd call)) (executed_calls (events (cron_callback w now))) =
           [cfg_name (config w)]"
proof -
  have h: "ctx_name (http_context w c) = cfg_name (config w)"
    by (simp add: http_context_def)
  have 1: "list_all (\<lambda>call. ctx_name (snd call) = cfg_name (config w))
           (executed_calls (snd (post_handler r c)))"
    using assms h
    by (simp add: post_handler_Found validate_and_invoke_def invoke_calls webhook_catch_def
        c_json_def split: option.split sum.split parse_result.split)
  have 2: "status (fst (post_handler r c)) = 200 \<longrightarrow>
            map (\<lambda>call. ctx_name (snd call)) (executed_calls (snd (post_handler r c))) =
              [cfg_name (config w)]"
    using assms h
    by (auto simp: post_handler_Found validate_and_invoke_def invoke_calls webhook_catch_def
        c_json_def dest: status_auth_check split: option.split sum.split parse_result.split)
  have 3: "map (\<lambda>call. ctx_name (snd call)) (executed_calls (events (cron_callback w now))) =
           [cfg_name (config w)]"
    by (simp add: cron_callback_def cron_context_def Let_def split: exec_result.split)
  from 1 2 3 show ?thesis by blast
qed

theorem context_name_copied_witness:
  "map (\<lambda>call. ctx_name (snd call)) (executed_calls (snd (post_handler sample_registry
      (sample_request ''webhook-no-auth'' [] [] good_json)))) = [Some ''Sample''] \<and>
   map (\<lambda>call. ctx_name (snd call)) (executed_calls (events (cron_callback wf_no_auth 0))) = [Some ''Sample'']"
proof -
  let ?c = "sample_request ''webhook-no-auth'' [] [] good_json"
  have f: "lookup sample_registry (req_workflowId ?c) = Found wf_no_auth"
    by (simp add: lookup_def sample_defs)
  have s: "status (fst (post_handler sample_registry ?c)) = 200"
    by (simp add: handler_defs sample_defs)
  show ?thesis
    using context_name_copied [OF f, of 0] s by (simp add: sample_defs)
qed

text \<open>
  The claim as stated fails: a definition with the id \<open>unnamed\<close> and no name is
  invoked with a context whose \<open>name\<close> is \<open>undefined\<close>, not the id, on both paths.
\<close>

theorem missing_name_stays_undefined:
  "cfg_name (config wf_unnamed) = None \<and> cfg_id (config wf_unnamed) = ''unnamed'' \<and>
   map (\<lambda>call. ctx_name (snd call)) (executed_calls (snd (post_handler sample_registry
      (sample_request ''unnamed'' [] [] good_json)))) = [None] \<and>
   map (\<lambda>call. ctx_name (snd call)) (executed_calls (events (cron_callback wf_unnamed 0))) = [None]"
  by (simp add: handler_defs sample_defs cron_callback_def cron_context_def)

subsection \<open>Scheduled firings\<close>

text \<open>
  Claim C6: a firing of a workflow's timer logs one line and invokes \<open>execute\<close> with
  the payload \<open>{ source: "cron", timestamp: now }\<close> and a context whose \<open>params\<close>,
  \<open>query\<close> and \<open>headers\<close> are empty. No registry, request, auth check or schema takes
  part: the firing is the same whatever schema and auth the definition declares.
\<close>

theorem scheduled_firing:
  "events (fire (e, w) now) =
     [ConsoleLog (''[Cron] Executing scheduled workflow: '' @ cfg_id (config w)),
      Executed (JObject [(''source'', JString ''cron''), (''timestamp'', JNumber now)])
        \<lparr>ctx_workflowId = cfg_id (config w), ctx_name = cfg_name (config w),
         ctx_params = Map.empty, ctx_query = Map.empty, ctx_headers = Map.empty\<rparr>] \<and>
   fire (e, w\<lparr>config := (config w)\<lparr>cfg_schema := s, cfg_auth := a\<rparr>\<rparr>) now = fire (e, w) now"
  by (simp add: fire_def cron_callback_def cron_payload_def cron_context_def Let_def
      split: exec_result.split)

text \<open>
  Claim C1, as the module has it: a firing of a workflow's timer calls \<open>execute\<close>
  with no handler around it. A fault \<open>execute\<close> throws leaves the callback as it is, a
  rejected promise it returns stays unhandled, and the log holds the line of the firing
  and nothing about the fault.
\<close>

theorem scheduled_fault_propagates:
  "thrown (fire (e, w) now) =
     (case execute w (cron_payload now) (cron_context w) of
        Throws x \<Rightarrow> Some x | Rejects x \<Rightarrow> None | Returns v \<Rightarrow> None | Resolves v \<Rightarrow> None) \<and>
   unhandled_rejection (fire (e, w) now) =
     (case execute w (cron_payload now) (cron_context w) of
        Rejects x \<Rightarrow> Some x | Throws x \<Rightarrow> None | Returns v \<Rightarrow> None | Resolves v \<Rightarrow> None) \<and>
   events (fire (e, w) now) =
     [ConsoleLog (''[Cron] Executing scheduled workflow: '' @ cfg_id (config w)),
      Executed (cron_payload now) (cron_context w)]"
  by (simp add: fire_def cron_callback_def Let_def split: exec_result.split)

text \<open>
  The claim as stated fails: the workflow declares the schedule \<open>* * * * *\<close>, loading
  it binds a timer, and a firing whose \<open>execute\<close> throws lets the fault out of the
  callback; one whose \<open>execute\<close> rejects leaves an unhandled rejection.
\<close>

theorem scheduled_fault_escapes:
  "cfg_schedule (config (wf_cron failing)) = Some ''* * * * *'' \<and>
   timers (snd (startMiqroCore (\<lambda>e. True) [wf_cron failing])) = [(''* * * * *'', wf_cron failing)] \<and>
   thrown (fire (''* * * * *'', wf_cron failing) 0) = Some (Thrown (JString ''boom'')) \<and>
   unhandled_rejection (fire (''* * * * *'', wf_cron rejecting) 0) = Some (Thrown (JString ''boom''))"
  by (simp add: startMiqroCore_def register_workflow_def initial_state_def fire_def
      cron_callback_def sample_defs Let_def)

subsection \<open>Loading: timers and duplicate ids\<close>

lemma slot_assign: "slot (assign r k w) k' = (if k' = k then Some w else slot r k')"
  by (simp add: slot_def assign_def)

lemma own_proto_assign:
  "own r ''__proto__'' = None \<Longrightarrow> own (assign r k w) ''__proto__'' = None"
  by (simp add: assign_def)

lemma lookup_slot:
  "own r ''__proto__'' = None \<Longrightarrow> slot r k = Some w \<Longrightarrow> lookup r k = Found w"
  by (auto simp: slot_def lookup_def split: if_splits)

lemma register_workflow_None:
  assumes "register_workflow valid l w s = (None, s')" and "cfg_id (config w) \<noteq> []"
  shows "workflows s' = assign (workflows s) (cfg_id (config w)) w"
    and "timers s' = timers s @ timers_of w"
  using assms
  by (auto simp: register_workflow_def timers_of_def Let_def split: option.splits if_splits)

lemma register_workflow_workflows:
  "register_workflow valid l w s = (r, s') \<Longrightarrow>
   workflows s' = assign (workflows s) (cfg_id (config w)) w"
  by (auto simp: register_workflow_def Let_def split: option.splits if_splits)

lemma register_static_timers:
  "register_static valid ws s = (None, s') \<Longrightarrow>
   timers s' = timers s @ concat (map timers_of ws)"
proof (induction ws arbitrary: s)
  case Nil
  then show ?case by simp
next
  case (Cons w ws)
  show ?case
  proof (cases "cfg_id (config w) = []")
    case True
    with Cons show ?thesis by (simp add: timers_of_def)
  next
    case False
    obtain r s1 where rw: "register_workflow valid
        (''[Miqro] Loaded workflow: '' @ cfg_id (config w)) w s = (r, s1)"
      by (cases "register_workflow valid (''[Miqro] Loaded workflow: '' @ cfg_id (config w)) w s")
    with Cons.prems False have r: "r = None" and rest: "register_static valid ws s1 = (None, s')"
      by (auto split: option.splits)
    from rw r False have "timers s1 = timers s @ timers_of w"
      using register_workflow_None(2) by blast
    with Cons.IH [OF rest] show ?thesis by simp
  qed
qed

lemma register_static_frame:
  "register_static valid ws s = (r, s') \<Longrightarrow> \<forall>w\<in>set ws. cfg_id (config w) \<noteq> k \<Longrightarrow>
   slot (workflows s') k = slot (workflows s) k"
proof (induction ws arbitrary: s)
  case Nil
  then show ?case by simp
next
  case (Cons w ws)
  show ?case
  proof (cases "cfg_id (config w) = []")
    case True
    with Cons show ?thesis by simp
  next
    case False
    obtain r1 s1 where rw: "register_workflow valid
        (''[Miqro] Loaded workflow: '' @ cfg_id (config w)) w s = (r1, s1)"
      by (cases "register_workflow valid (''[Miqro] Loaded workflow: '' @ cfg_id (config w)) w s")
    have s1: "slot (workflows s1) k = slot (workflows s) k"
      using register_workflow_workflows [OF rw] Cons.prems(2) by (auto simp: slot_assign)
    show ?thesis
    proof (cases r1)
      case None
      with rw False Cons.prems have "register_static valid ws s1 = (r, s')" by simp
      with Cons.IH [of s1] Cons.prems(2) s1 show ?thesis by simp
    next
      case (Some e)
      with rw False Cons.prems have "s' = s1" by simp
      with s1 show ?thesis by simp
    qed
  qed
qed

lemma register_static_own_proto:
  "register_static valid ws s = (r, s') \<Longrightarrow> own (workflows s) ''__proto__'' = None \<Longrightarrow>
   own (workflows s') ''__proto__'' = None"
proof (induction ws arbitrary: s)
  case Nil
  then show ?case by simp
next
  case (Cons w ws)
  show ?case
  proof (cases "cfg_id (config w) = []")
    case True
    with Cons show ?thesis by simp
  next
    case False
    obtain r1 s1 where rw: "register_workflow valid
        (''[Miqro] Loaded workflow: '' @ cfg_id (config w)) w s = (r1, s1)"
      by (cases "register_workflow valid (''[Miqro] Loaded workflow: '' @ cfg_id (config w)) w s")
    have s1: "own (workflows s1) ''__proto__'' = None"
      using register_workflow_workflows [OF rw] Cons.prems(2) by (simp add: own_proto_assign)
    show ?thesis
    proof (cases r1)
      case None
      with rw False Cons.prems have "register_static valid ws s1 = (r, s')" by simp
      with Cons.IH [of s1] s1 show ?thesis by simp
    next
      case (Some e)
      with rw False Cons.prems have "s' = s1" by simp
      with s1 show ?thesis by simp
    qed
  qed
qed

lemma register_static_append:
  "register_static valid (xs @ ys) s =
     (case register_static valid xs s of
        (Some e, s1) \<Rightarrow> (Some e, s1)
      | (None, s1) \<Rightarrow> register_static valid ys s1)"
  by (induction xs arbitrary: s) (auto split: prod.splits option.splits)

lemma register_static_last:
  assumes "register_static valid (xs @ w # post) s = (None, s')"
    and "cfg_id (config w) = k" and "k \<noteq> []"
    and "\<forall>v\<in>set post. cfg_id (config v) \<noteq> k"
  shows "slot (workflows s') k = Some w"
proof -
  obtain s1 where xs: "register_static valid xs s = (None, s1)"
    and rest: "register_static valid (w # post) s1 = (None, s')"
    using assms(1) by (auto simp: register_static_append split: prod.splits option.splits)
  obtain r2 s2 where rw: "register_workflow valid
        (''[Miqro] Loaded workflow: '' @ cfg_id (config w)) w s1 = (r2, s2)"
    by (cases "register_workflow valid (''[Miqro] Loaded workflow: '' @ cfg_id (config w)) w s1")
  with rest assms(2,3) have post: "register_static valid post s2 = (None, s')"
    by (auto split: option.splits)
  have "slot (workflows s2) k = Some w"
    using register_workflow_workflows [OF rw] assms(2) by (simp add: slot_assign)
  with register_static_frame [OF post assms(4)] show ?thesis by simp
qed

text \<open>
  The loop of \<open>loadWorkflows\<close> builds the registry and the timers that the loop of
  \<open>startMiqroCore\<close> builds from the definitions it reaches.
\<close>

lemma register_workflow_simulation:
  assumes "workflows s = workflows t" and "timers s = timers t"
    and "register_workflow valid l w s = (r, s')"
  shows "\<exists>t'. register_workflow valid l' w t = (r, t') \<and>
              workflows s' = workflows t' \<and> timers s' = timers t'"
  using assms
  by (auto simp: register_workflow_def Let_def split: option.splits if_splits)

lemma load_files_static:
  "workflows s = workflows t \<Longrightarrow> timers s = timers t \<Longrightarrow>
   load_files valid files s = (None, s') \<Longrightarrow>
   \<exists>t'. register_static valid (loaded_definitions files) t = (None, t') \<and>
        workflows s' = workflows t' \<and> timers s' = timers t'"
proof (induction files arbitrary: s t)
  case Nil
  then show ?case by simp
next
  case (Cons f files)
  obtain fname m where f: "f = (fname, m)" by (cases f)
  show ?case
  proof (cases "endsWith fname ''.ts'' \<or> endsWith fname ''.js''")
    case False
    with Cons f show ?thesis by simp
  next
    case True
    show ?thesis
    proof (cases m)
      case (ImportFails e)
      with Cons.prems True f show ?thesis by simp
    next
      case (DefaultExport d)
      show ?thesis
      proof (cases d)
        case None
        with Cons True f DefaultExport show ?thesis by simp
      next
        case (Some w)
        show ?thesis
        proof (cases "cfg_id (config w) = []")
          case True
          with Cons \<open>endsWith fname ''.ts'' \<or> endsWith fname ''.js''\<close> f DefaultExport Some
          show ?thesis by simp
        next
          case False
          obtain r1 s1 where rw: "register_workflow valid
              (''[Miqro] Loaded workflow: '' @ cfg_id (config w) @ '' ('' @ fname @ '')'') w s
                = (r1, s1)"
            by (cases "register_workflow valid
              (''[Miqro] Loaded workflow: '' @ cfg_id (config w) @ '' ('' @ fname @ '')'') w s")
          with Cons.prems(3) True f DefaultExport Some False
          have r1: "r1 = None" and rest: "load_files valid files s1 = (None, s')"
            by (auto split: option.splits)
          from register_workflow_simulation [OF Cons.prems(1,2) rw]
          obtain t1 where t1: "register_workflow valid
              (''[Miqro] Loaded workflow: '' @ cfg_id (config w)) w t = (r1, t1)"
            and eq: "workflows s1 = workflows t1" "timers s1 = timers t1"
            by blast
          from Cons.IH [OF eq rest] obtain t' where
            "register_static valid (loaded_definitions files) t1 = (None, t')"
            "workflows s' = workflows t'" "timers s' = timers t'"
            by blast
          with t1 r1 True f DefaultExport Some False show ?thesis by simp
        qed
      qed
    qed
  qed
qed

lemma duplicate_id_static:
  assumes "register_static valid (pre @ w1 # mid @ w2 # post) initial_state = (None, t)"
    and "cfg_id (config w1) = k" and "cfg_id (config w2) = k" and "k \<noteq> []"
    and "cfg_schedule (config w1) = Some e1" and "e1 \<noteq> []"
    and "cfg_schedule (config w2) = Some e2" and "e2 \<noteq> []"
    and "\<forall>v\<in>set post. cfg_id (config v) \<noteq> k"
  shows "(e1, w1) \<in> set (timers t)" and "(e2, w2) \<in> set (timers t)"
    and "lookup (workflows t) k = Found w2"
proof -
  let ?ws = "pre @ w1 # mid @ w2 # post"
  have "timers t = concat (map timers_of ?ws)"
    using register_static_timers [OF assms(1)] by (simp add: initial_state_def)
  moreover have "timers_of w1 = [(e1, w1)]" "timers_of w2 = [(e2, w2)]"
    using assms(2-8) by (simp_all add: timers_of_def)
  ultimately show "(e1, w1) \<in> set (timers t)" "(e2, w2) \<in> set (timers t)"
    by simp_all
  have run': "register_static valid ((pre @ w1 # mid) @ w2 # post) initial_state = (None, t)"
    using assms(1) by simp
  have "slot (workflows t) k = Some w2"
    using register_static_last [OF run' assms(3,4,9)] .
  moreover have "own (workflows t) ''__proto__'' = None"
    using register_static_own_proto [OF assms(1)]
    by (simp add: initial_state_def empty_registry_def)
  ultimately show "lookup (workflows t) k = Found w2"
    by (rule lookup_slot [rotated])
qed

text \<open>
  Claim C9, as the module has it: when a loading loop completes (the loop of
  \<open>startMiqroCore\<close> over the static list, or the loop of \<open>loadWorkflows\<close> over the
  files), which takes the timer library accepting every schedule it is handed, every
  loaded definition with a schedule has had its timer bound when it was loaded. So when
  two definitions share an id and both declare a schedule, the timer of the earlier one
  stays bound and a firing of it calls the earlier definition's \<open>execute\<close>, while the
  registry, and with it HTTP dispatch, resolves the id to the later one (the last with
  that id).
\<close>

theorem duplicate_id_timers:
  assumes "defs = pre @ w1 # mid @ w2 # post"
    and "cfg_id (config w1) = k" and "cfg_id (config w2) = k" and "k \<noteq> []"
    and "cfg_schedule (config w1) = Some e1" and "e1 \<noteq> []"
    and "cfg_schedule (config w2) = Some e2" and "e2 \<noteq> []"
    and "\<forall>v\<in>set post. cfg_id (config v) \<noteq> k"
    and "startMiqroCore valid defs = (None, s) \<or>
         (loaded_definitions files = defs \<and>
          fst (load_files valid files initial_state) = None \<and>
          loadWorkflows valid dir (Inr files) = s)"
  shows "timers s = concat (map timers_of defs) \<and>
         (e1, w1) \<in> set (timers s) \<and> (e2, w2) \<in> set (timers s) \<and>
         executed_calls (events (fire (e1, w1) now)) = [(cron_payload now, cron_context w1)] \<and>
         thrown (fire (e1, w1) now) =
           (case execute w1 (cron_payload now) (cron_context w1) of
              Throws x \<Rightarrow> Some x | Rejects x \<Rightarrow> None
            | Returns v \<Rightarrow> None | Resolves v \<Rightarrow> None) \<and>
         unhandled_rejection (fire (e1, w1) now) =
           (case execute w1 (cron_payload now) (cron_context w1) of
              Rejects x \<Rightarrow> Some x | Throws x \<Rightarrow> None
            | Returns v \<Rightarrow> None | Resolves v \<Rightarrow> None) \<and>
         lookup (workflows s) k = Found w2"
proof -
  have "\<exists>t. register_static valid defs initial_state = (None, t) \<and>
            workflows s = workflows t \<and> timers s = timers t"
    using assms(10)
  proof
    assume "startMiqroCore valid defs = (None, s)"
    then show ?thesis by (auto simp: startMiqroCore_def)
  next
    assume dyn: "loaded_definitions files = defs \<and>
          fst (load_files valid files initial_state) = None \<and>
          loadWorkflows valid dir (Inr files) = s"
    then have run: "load_files valid files initial_state = (None, s)"
      by (cases "load_files valid files initial_state") (auto simp: loadWorkflows_def)
    from load_files_static [OF refl refl run] dyn show ?thesis by simp
  qed
  then obtain t where run: "register_static valid defs initial_state = (None, t)"
    and eq: "workflows s = workflows t" "timers s = timers t"
    by auto
  have all: "timers s = concat (map timers_of defs)"
    using register_static_timers [OF run] eq by (simp add: initial_state_def)
  from run assms(1)
  have t: "register_static valid (pre @ w1 # mid @ w2 # post) initial_state = (None, t)"
    by simp
  have firing:
    "executed_calls (events (fire (e1, w1) now)) = [(cron_payload now, cron_context w1)]"
    "thrown (fire (e1, w1) now) =
       (case execute w1 (cron_payload now) (cron_context w1) of
          Throws x \<Rightarrow> Some x | Rejects x \<Rightarrow> None
        | Returns v \<Rightarrow> None | Resolves v \<Rightarrow> None)"
    "unhandled_rejection (fire (e1, w1) now) =
       (case execute w1 (cron_payload now) (cron_context w1) of
          Rejects x \<Rightarrow> Some x | Throws x \<Rightarrow> None
        | Returns v \<Rightarrow> None | Resolves v \<Rightarrow> None)"
    by (simp_all add: fire_def cron_callback_def Let_def split: exec_result.split)
  from duplicate_id_static [OF t assms(2-9)] eq all firing show ?thesis
    by simp
qed

theorem duplicate_id_timers_witness:
  "timers (snd (startMiqroCore (\<lambda>e. True) [dup_first, dup_second])) =
     [(''* * * * *'', dup_first), (''0 0 * * *'', dup_second)] \<and>
   executed_calls (events (fire (''* * * * *'', dup_first) 0)) =
     [(cron_payload 0, cron_context dup_first)] \<and>
   thrown (fire (''* * * * *'', dup_first) 0) = None \<and>
   lookup (workflows (snd (startMiqroCore (\<lambda>e. True) [dup_first, dup_second])))
     ''hourly-sync-task'' = Found dup_second \<and>
   timers (loadWorkflows (\<lambda>e. True) ''workflows''
       (Inr [(''a.ts'', DefaultExport (Some dup_first)),
             (''b.js'', DefaultExport (Some dup_second))])) =
     [(''* * * * *'', dup_first), (''0 0 * * *'', dup_second)] \<and>
   lookup (workflows (loadWorkflows (\<lambda>e. True) ''workflows''
       (Inr [(''a.ts'', DefaultExport (Some dup_first)),
             (''b.js'', DefaultExport (Some dup_second))])))
     ''hourly-sync-task'' = Found dup_second"
proof -
  let ?defs = "[dup_first, dup_second]"
  let ?files = "[(''a.ts'', DefaultExport (Some dup_first)),
                 (''b.js'', DefaultExport (Some dup_second))]"
  have d: "?defs = [] @ dup_first # [] @ dup_second # []" by simp
  have i1: "cfg_id (config dup_first) = ''hourly-sync-task''"
    and i2: "cfg_id (config dup_second) = ''hourly-sync-task''"
    and e1: "cfg_schedule (config dup_first) = Some ''* * * * *''"
    and e2: "cfg_schedule (config dup_second) = Some ''0 0 * * *''"
    and x1: "execute dup_first = echo"
    by (simp_all add: dup_first_def dup_second_def wf_cron_def sample_config_def)
  have k: "''hourly-sync-task'' \<noteq> []" and n1: "''* * * * *'' \<noteq> []"
    and n2: "''0 0 * * *'' \<noteq> []"
    by simp_all
  have p: "\<forall>v\<in>set []. cfg_id (config v) \<noteq> ''hourly-sync-task''" by simp
  have st: "fst (startMiqroCore (\<lambda>e. True) ?defs) = None"
    by (simp add: startMiqroCore_def register_workflow_def Let_def i1 i2 e1 e2)
  then have a: "startMiqroCore (\<lambda>e. True) ?defs =
        (None, snd (startMiqroCore (\<lambda>e. True) ?defs)) \<or>
      (loaded_definitions ?files = ?defs \<and>
       fst (load_files (\<lambda>e. True) ?files initial_state) = None \<and>
       loadWorkflows (\<lambda>e. True) ''workflows'' (Inr ?files) =
         snd (startMiqroCore (\<lambda>e. True) ?defs))"
    by (metis prod.collapse)
  have ld: "loaded_definitions ?files = ?defs"
    by (simp add: endsWith_def suffix_to_prefix)
  have lf: "fst (load_files (\<lambda>e. True) ?files initial_state) = None"
    by (simp add: endsWith_def suffix_to_prefix register_workflow_def Let_def i1 i2 e1 e2)
  have b: "startMiqroCore (\<lambda>e. True) ?defs =
        (None, loadWorkflows (\<lambda>e. True) ''workflows'' (Inr ?files)) \<or>
      (loaded_definitions ?files = ?defs \<and>
       fst (load_files (\<lambda>e. True) ?files initial_state) = None \<and>
       loadWorkflows (\<lambda>e. True) ''workflows'' (Inr ?files) =
         loadWorkflows (\<lambda>e. True) ''workflows'' (Inr ?files))"
    using ld lf by simp
  show ?thesis
    using duplicate_id_timers [OF d i1 i2 k e1 n1 e2 n2 p a, of 0]
      duplicate_id_timers [OF d i1 i2 k e1 n1 e2 n2 p b, of 0]
    by (simp add: timers_of_def i1 i2 e1 e2 x1 echo_def)
qed

text \<open>
  The claim as stated fails: it has a timer registered for every loaded definition
  that declares a schedule. Here the second definition under the id declares the
  schedule \<open>every minute\<close>, which the timer library rejects. It is loaded (the registry
  resolves the id to it), \<open>cron.schedule\<close> throws, and only the first definition has a
  timer: in \<open>startMiqroCore\<close>, whose promise is rejected, and in \<open>loadWorkflows\<close>, which
  logs the fault and returns the registry.
\<close>

theorem rejected_schedule_has_no_timer:
  "cfg_schedule (config dup_misspelt) = Some ''every minute'' \<and>
   fst (startMiqroCore strict_cron [dup_first, dup_misspelt]) =
     Some (CollaboratorError ''every minute'') \<and>
   lookup (workflows (snd (startMiqroCore strict_cron [dup_first, dup_misspelt])))
     ''hourly-sync-task'' = Found dup_misspelt \<and>
   timers (snd (startMiqroCore strict_cron [dup_first, dup_misspelt])) =
     [(''* * * * *'', dup_first)] \<and>
   lookup (workflows (loadWorkflows strict_cron ''workflows''
       (Inr [(''a.ts'', DefaultExport (Some dup_first)),
             (''b.ts'', DefaultExport (Some dup_misspelt))])))
     ''hourly-sync-task'' = Found dup_misspelt \<and>
   timers (loadWorkflows strict_cron ''workflows''
       (Inr [(''a.ts'', DefaultExport (Some dup_first)),
             (''b.ts'', DefaultExport (Some dup_misspelt))])) =
     [(''* * * * *'', dup_first)]"
proof -
  have c: "cfg_id (config dup_first) = ''hourly-sync-task''"
    "cfg_id (config dup_misspelt) = ''hourly-sync-task''"
    "cfg_schedule (config dup_first) = Some ''* * * * *''"
    "cfg_schedule (config dup_misspelt) = Some ''every minute''"
    by (simp_all add: dup_first_def dup_misspelt_def wf_cron_def sample_config_def)
  show ?thesis
    by (simp add: c startMiqroCore_def loadWorkflows_def register_workflow_def Let_def
        initial_state_def empty_registry_def assign_def lookup_def strict_cron_def
        endsWith_def suffix_to_prefix)
qed

end
